theory Spec2Isabelle
  imports Main "HOL-Library.AList"
begin

section \<open>Regular expressions of the validation rules\<close>

text \<open>
  The two pattern rules of the dialogs are the JavaScript literals
  \<^verbatim>\<open>/^[a-z]([a-z0-9-]*[a-z0-9])?$/\<close> and \<^verbatim>\<open>/^[0-9]+$/\<close>. Both are anchored at
  both ends and carry no flag, so \<^verbatim>\<open>RegExp.test\<close> succeeds exactly when the whole
  string is matched. A character class is a list of inclusive ranges (a single
  character is the range from itself to itself).
\<close>

datatype regex =
    Zero
  | One
  | Cls "(char \<times> char) list"
  | Alt regex regex
  | Seq regex regex
  | Star regex
  | Opt regex
  | Plus regex

definition inRange :: "char \<Rightarrow> char \<times> char \<Rightarrow> bool" where
  "inRange c r = ((of_char (fst r) :: nat) \<le> of_char c \<and> (of_char c :: nat) \<le> of_char (snd r))"

definition inClass :: "(char \<times> char) list \<Rightarrow> char \<Rightarrow> bool" where
  "inClass rs c = list_ex (inRange c) rs"

fun nullable :: "regex \<Rightarrow> bool" where
  "nullable Zero = False"
| "nullable One = True"
| "nullable (Cls rs) = False"
| "nullable (Alt r s) = (nullable r \<or> nullable s)"
| "nullable (Seq r s) = (nullable r \<and> nullable s)"
| "nullable (Star r) = True"
| "nullable (Opt r) = True"
| "nullable (Plus r) = nullable r"

fun deriv :: "char \<Rightarrow> regex \<Rightarrow> regex" where
  "deriv c Zero = Zero"
| "deriv c One = Zero"
| "deriv c (Cls rs) = (if inClass rs c then One else Zero)"
| "deriv c (Alt r s) = Alt (deriv c r) (deriv c s)"
| "deriv c (Seq r s) =
     (if nullable r then Alt (Seq (deriv c r) s) (deriv c s) else Seq (deriv c r) s)"
| "deriv c (Star r) = Seq (deriv c r) (Star r)"
| "deriv c (Opt r) = deriv c r"
| "deriv c (Plus r) = Seq (deriv c r) (Star r)"

text \<open>\<^verbatim>\<open>pattern.test(value)\<close> for an anchored pattern: the whole value is consumed.\<close>

fun test :: "regex \<Rightarrow> string \<Rightarrow> bool" where
  "test r [] = nullable r"
| "test r (c # cs) = test (deriv c r) cs"

text \<open>The character classes and the two patterns, as written in the source.\<close>

definition lower :: "(char \<times> char) list" where
  "lower = [(CHR ''a'', CHR ''z'')]"

definition lower_digit :: "(char \<times> char) list" where
  "lower_digit = [(CHR ''a'', CHR ''z''), (CHR ''0'', CHR ''9'')]"

definition lower_digit_dash :: "(char \<times> char) list" where
  "lower_digit_dash = [(CHR ''a'', CHR ''z''), (CHR ''0'', CHR ''9''), (CHR ''-'', CHR ''-'')]"

definition digit :: "(char \<times> char) list" where
  "digit = [(CHR ''0'', CHR ''9'')]"

definition k8s_name_pattern :: regex where
  "k8s_name_pattern =
     Seq (Cls lower) (Opt (Seq (Star (Cls lower_digit_dash)) (Cls lower_digit)))"

definition int_pattern :: regex where
  "int_pattern = Plus (Cls digit)"

section \<open>The form library: rule objects, field validation, submission\<close>

text \<open>
  The dialogs are built on react-hook-form, which is not part of the repository.
  What the dialogs rely on is modelled here after the library's contract:
  \<^item> a rule object is a JavaScript object literal, kept as the list of its keys with
    their values: a bare message (\<^verbatim>\<open>required: 'Required field'\<close>) or a value with a
    message (\<^verbatim>\<open>pattern: { value: /.../, message: '...' }\<close>);
  \<^item> a field is validated on its own value: the \<^verbatim>\<open>required\<close> criterion first (it
    fails on the empty string and reports its message at once), then the
    \<^verbatim>\<open>pattern\<close> criterion, which the library skips on the empty string;
  \<^item> \<^verbatim>\<open>handleSubmit(onSubmit)\<close> validates every registered field and calls
    \<^verbatim>\<open>onSubmit\<close> with the values of the registered fields when none has an error; it
    calls nothing otherwise.
\<close>

datatype ruleval = Message string | ValueMessage regex string

type_synonym rules = "(string \<times> ruleval) list"

datatype widget = TextInput | Select "(string \<times> string) list"

record field =
  name :: string
  label :: string
  defaultValue :: string
  rules :: rules
  widget :: widget

type_synonym formdata = "(string \<times> string) list"

type_synonym formstate = "string \<rightharpoonup> string"

definition patternError :: "rules \<Rightarrow> string \<Rightarrow> string option" where
  "patternError rs v =
     (case map_of rs ''pattern'' of
        Some (ValueMessage r m) \<Rightarrow> if v \<noteq> [] \<and> \<not> test r v then Some m else None
      | _ \<Rightarrow> None)"

definition validateField :: "rules \<Rightarrow> string \<Rightarrow> string option" where
  "validateField rs v =
     (case map_of rs ''required'' of
        Some (Message m) \<Rightarrow> if v = [] then Some m else patternError rs v
      | _ \<Rightarrow> patternError rs v)"

text \<open>The value of a field: what the user entered, the default value before that.\<close>

definition valueOr :: "formstate \<Rightarrow> string \<Rightarrow> string \<Rightarrow> string" where
  "valueOr vals n d = (case vals n of Some v \<Rightarrow> v | None \<Rightarrow> d)"

definition fieldValue :: "formstate \<Rightarrow> field \<Rightarrow> string" where
  "fieldValue vals f = valueOr vals (name f) (defaultValue f)"

text \<open>\<^verbatim>\<open>watch(n)\<close>: the entered value, \<^verbatim>\<open>undefined\<close> (\<open>None\<close>) while there is none.\<close>

definition watch :: "formstate \<Rightarrow> string \<Rightarrow> string option" where
  "watch vals n = vals n"

text \<open>
  The validation pass that \<^verbatim>\<open>handleSubmit\<close> and \<^verbatim>\<open>triggerValidation()\<close> run:
  every registered field is validated on its current value, and the result lists the
  failing fields with their messages. This is what such a pass writes into the
  \<^verbatim>\<open>errors\<close> object of \<^verbatim>\<open>useForm\<close>. The object itself is state of the library:
  between passes it holds entries only for the fields validated so far (none for an
  input that has just been mounted), and it is not modelled.
\<close>

fun validationPass :: "field list \<Rightarrow> formstate \<Rightarrow> (string \<times> string) list" where
  "validationPass [] vals = []"
| "validationPass (f # fs) vals =
     (case validateField (rules f) (fieldValue vals f) of
        None \<Rightarrow> validationPass fs vals
      | Some m \<Rightarrow> (name f, m) # validationPass fs vals)"

definition getValues :: "field list \<Rightarrow> formstate \<Rightarrow> formdata" where
  "getValues fs vals = map (\<lambda>f. (name f, fieldValue vals f)) fs"

section \<open>Effects of the handlers\<close>

text \<open>
  Calls that leave the component: the callbacks of the props, the timer of the host, the
  form library's \<^verbatim>\<open>triggerValidation\<close> and the console. \<open>SetTimeout cb ms\<close> is
  \<^verbatim>\<open>setTimeout(() => cb, ms)\<close>: the calls of \<open>cb\<close> happen when the timer expires.
\<close>

datatype effect =
    ToggleDialog
  | RunInferenceService formdata
  | SetKFServingMetadata formdata
  | TriggerValidation
  | SetTimeout "effect list" nat
  | ConsoleLog "string option"

definition handleSubmit ::
  "(formdata \<Rightarrow> effect list) \<Rightarrow> field list \<Rightarrow> formstate \<Rightarrow> effect list" where
  "handleSubmit onSubmit fs vals =
     (if validationPass fs vals = [] then onSubmit (getValues fs vals) else [])"

section \<open>The dialogs\<close>

text \<open>
  What a dialog component returns: the \<^verbatim>\<open>open\<close> flag it passes to the framework's
  \<^verbatim>\<open>Dialog\<close>, the title, the inputs of its \<^verbatim>\<open>DialogContent\<close> in order (each one
  registers its field with the form), and the buttons of its \<^verbatim>\<open>DialogActions\<close> with
  their \<^verbatim>\<open>onClick\<close> handlers: a plain function of the component, or
  \<^verbatim>\<open>handleSubmit(onSubmit)\<close>. The helper text of an input (the message the library
  last recorded for its field) is display only and is not part of the view. The value of
  an input element is a string, so the numeric default \<^verbatim>\<open>defaultValue={5000}\<close> of the
  port input is the string 5000.
\<close>

datatype handler = Call "effect list" | HandleSubmit "formdata \<Rightarrow> effect list"

record view =
  is_open :: bool
  title :: string
  content :: "field list"
  actions :: "(string \<times> handler) list"

text \<open>The input a dialog renders under a given field name, if it renders one.\<close>

definition fieldNamed :: "view \<Rightarrow> string \<Rightarrow> field option" where
  "fieldNamed v n = find (\<lambda>f. name f = n) (content v)"

text \<open>\<^verbatim>\<open>PREDICTOR_VALUES\<close> of widgets/KFServingDialog.tsx, as (label, value) pairs.\<close>

definition PREDICTOR_VALUES :: "(string \<times> string) list" where
  "PREDICTOR_VALUES =
     [(''Tensorflow'', ''tensorflow''),
      (''PyTorch'', ''pytorch''),
      (''ONNX'', ''onnx''),
      (''Triton'', ''triton''),
      (''SKLearn'', ''sklearn''),
      (''XGBoost'', ''xgboost''),
      (''Custom'', ''custom'')]"

subsection \<open>widgets/KFServingDialog.tsx\<close>

text \<open>
  The interface \<^verbatim>\<open>KFServingFormData\<close>: the keys it requires and the keys it marks
  optional (\<^verbatim>\<open>image?\<close>, \<^verbatim>\<open>port?\<close>, \<^verbatim>\<open>endpoint?\<close>).
\<close>

definition KFServingFormData_required :: "string list" where
  "KFServingFormData_required = [''name'', ''modelPath'', ''predictor'']"

definition KFServingFormData_optional :: "string list" where
  "KFServingFormData_optional = [''image'', ''port'', ''endpoint'']"

definition KFServingDialog_onSubmit :: "formdata \<Rightarrow> effect list" where
  "KFServingDialog_onSubmit data = [ToggleDialog, RunInferenceService data]"

definition KFServingDialog_onCancel :: "effect list" where
  "KFServingDialog_onCancel = [ToggleDialog]"

definition KFServingDialog_useEffect :: "bool \<Rightarrow> effect list" where
  "KFServingDialog_useEffect opn = (if opn then [SetTimeout [TriggerValidation] 500] else [])"

text \<open>The body of the component logs the watched predictor at every render.\<close>

definition KFServingDialog_log :: "formstate \<Rightarrow> effect list" where
  "KFServingDialog_log vals = [ConsoleLog (watch vals ''predictor'')]"

definition KFServingDialog :: "bool \<Rightarrow> formstate \<Rightarrow> view" where
  "KFServingDialog opn vals =
     (let predictorValue = watch vals ''predictor'' in
      \<lparr> is_open = opn,
        title = ''Serve'',
        content =
          [\<lparr> name = ''name'', label = ''InferenceService Name'', defaultValue = '''',
             rules = [(''required'', Message ''Required field''),
                      (''pattern'', ValueMessage k8s_name_pattern
                                      ''Must be a valid K8s resource name'')],
             widget = TextInput \<rparr>,
           \<lparr> name = ''modelPath'', label = ''Model Path'', defaultValue = '''',
             rules = [(''required'', Message ''Required field'')],
             widget = TextInput \<rparr>,
           \<lparr> name = ''predictor'', label = ''Predictor Type'', defaultValue = '''',
             rules = [(''required'', Message ''Required field'')],
             widget = Select PREDICTOR_VALUES \<rparr>] @
          (if predictorValue = Some ''custom'' then
             [\<lparr> name = ''image'', label = ''Docker Image'', defaultValue = '''',
                rules = [(''required'', Message ''Required field'')],
                widget = TextInput \<rparr>,
              \<lparr> name = ''port'', label = ''Endpoint Port'', defaultValue = ''5000'',
                rules = [(''required'', Message ''Required field''),
                         (''pattern'', ValueMessage int_pattern ''Must be an int'')],
                widget = TextInput \<rparr>,
              \<lparr> name = ''endpoint'', label = ''Service Endpoint'', defaultValue = '''',
                rules = [(''required'', Message ''Required field'')],
                widget = TextInput \<rparr>]
           else []),
        actions =
          [(''Cancel'', Call KFServingDialog_onCancel),
           (''Run'', HandleSubmit KFServingDialog_onSubmit)] \<rparr>)"

subsection \<open>widgets/KFServingPipelineDialog.tsx\<close>

definition KFServingPipelineDialog_onSubmit :: "formdata \<Rightarrow> effect list" where
  "KFServingPipelineDialog_onSubmit data = [ToggleDialog, SetKFServingMetadata data]"

definition KFServingPipelineDialog_useEffect :: "bool \<Rightarrow> effect list" where
  "KFServingPipelineDialog_useEffect opn =
     (if opn then [SetTimeout [TriggerValidation] 500] else [])"

definition KFServingPipelineDialog :: "bool \<Rightarrow> formstate \<Rightarrow> view" where
  "KFServingPipelineDialog opn vals =
     \<lparr> is_open = opn,
       title = ''KFServing'',
       content =
         [\<lparr> name = ''model'', label = ''Model Variable Name'', defaultValue = '''',
            rules = [(''required'', Message ''Required field'')],
            widget = TextInput \<rparr>,
          \<lparr> name = ''predictor'', label = ''Predictor'', defaultValue = '''',
            rules = [(''required'', Message ''Required field'')],
            widget = Select PREDICTOR_VALUES \<rparr>],
       actions = [(''Ok'', HandleSubmit KFServingPipelineDialog_onSubmit)] \<rparr>"

subsection \<open>The KFServingDialog that follows FormInput in components/FormInput.tsx\<close>

text \<open>
  This earlier dialog has no \<^verbatim>\<open>runInferenceService\<close> prop (the line of the interface
  is commented out), and the body of its \<^verbatim>\<open>onSubmit\<close> is the commented-out call
  only: the handler does nothing.
\<close>

definition KFServingDialog_embedded_onSubmit :: "formdata \<Rightarrow> effect list" where
  "KFServingDialog_embedded_onSubmit data = []"

definition KFServingDialog_embedded_handleClose :: "effect list" where
  "KFServingDialog_embedded_handleClose = [ToggleDialog]"

definition KFServingDialog_embedded_useEffect :: "bool \<Rightarrow> effect list" where
  "KFServingDialog_embedded_useEffect opn =
     (if opn then [SetTimeout [TriggerValidation] 500] else [])"

definition KFServingDialog_embedded :: "bool \<Rightarrow> formstate \<Rightarrow> view" where
  "KFServingDialog_embedded opn vals =
     \<lparr> is_open = opn,
       title = ''KFServing'',
       content =
         [\<lparr> name = ''name'', label = ''InferenceService Name'', defaultValue = '''',
            rules = [(''required'', Message ''Required field''),
                     (''pattern'', ValueMessage k8s_name_pattern
                                     ''Must be a valid K8s resource name'')],
            widget = TextInput \<rparr>,
          \<lparr> name = ''image'', label = ''Docker Image'', defaultValue = '''',
            rules = [(''required'', Message ''Required field'')],
            widget = TextInput \<rparr>,
          \<lparr> name = ''port'', label = ''Endpoint Port'', defaultValue = ''5000'',
            rules = [(''required'', Message ''Required field''),
                     (''pattern'', ValueMessage int_pattern ''Must be an int'')],
            widget = TextInput \<rparr>,
          \<lparr> name = ''endpoint'', label = ''Service Endpoint'', defaultValue = '''',
            rules = [(''required'', Message ''Required field'')],
            widget = TextInput \<rparr>,
          \<lparr> name = ''path'', label = ''Model Path'', defaultValue = '''',
            rules = [(''required'', Message ''Required field'')],
            widget = TextInput \<rparr>],
       actions =
         [(''Cancel'', Call KFServingDialog_embedded_handleClose),
          (''Run'', HandleSubmit KFServingDialog_embedded_onSubmit)] \<rparr>"

subsection \<open>All dialogs of the repository\<close>

datatype dialog = Serve | Pipeline | Embedded

fun render :: "dialog \<Rightarrow> bool \<Rightarrow> formstate \<Rightarrow> view" where
  "render Serve opn vals = KFServingDialog opn vals"
| "render Pipeline opn vals = KFServingPipelineDialog opn vals"
| "render Embedded opn vals = KFServingDialog_embedded opn vals"

fun openEffect :: "dialog \<Rightarrow> bool \<Rightarrow> effect list" where
  "openEffect Serve opn = KFServingDialog_useEffect opn"
| "openEffect Pipeline opn = KFServingPipelineDialog_useEffect opn"
| "openEffect Embedded opn = KFServingDialog_embedded_useEffect opn"

text \<open>
  A click on the button with the given caption. The framework's \<^verbatim>\<open>Dialog\<close> shows its
  content and actions only while \<^verbatim>\<open>open\<close> is true, so there is nothing to click on a
  closed dialog (\<open>None\<close>), nor on a caption the dialog does not have. The fields that
  \<^verbatim>\<open>handleSubmit\<close> validates and collects are the ones the dialog currently renders.
\<close>

definition click :: "view \<Rightarrow> string \<Rightarrow> formstate \<Rightarrow> effect list option" where
  "click v caption vals =
     (if \<not> is_open v then None
      else case map_of (actions v) caption of
             None \<Rightarrow> None
           | Some (Call es) \<Rightarrow> Some es
           | Some (HandleSubmit onSubmit) \<Rightarrow> Some (handleSubmit onSubmit (content v) vals))"

text \<open>
  \<^verbatim>\<open>React.useEffect(cb, [props.open])\<close>: the callback runs after the first render and
  after every later render whose \<^verbatim>\<open>props.open\<close> differs from the previous render's.
  Given the values of \<^verbatim>\<open>props.open\<close> at the successive renders, the result lists the
  effects of each render.
\<close>

fun useEffect :: "(bool \<Rightarrow> effect list) \<Rightarrow> bool option \<Rightarrow> bool list \<Rightarrow> effect list list" where
  "useEffect cb prev [] = []"
| "useEffect cb prev (d # ds) =
     (if prev = Some d then [] else cb d) # useEffect cb (Some d) ds"

section \<open>components/FormInput.tsx\<close>

text \<open>
  Props are JavaScript objects: lists of keys with values, looked up with \<open>map_of\<close>.
  \<open>spread a b\<close> is \<^verbatim>\<open>{...a, ...b}\<close> (and JSX attributes written after a spread):
  the keys of \<open>b\<close> win. The class names come from the styling hook and are a parameter.
\<close>

datatype jsval =
    JUndefined
  | JBool bool
  | JNum int
  | JStr string
  | JObj "(string \<times> jsval) list"

type_synonym obj = "(string \<times> jsval) list"

record classNames =
  label_class :: string
  input_class :: string
  textField_class :: string
  helperLabel_class :: string

definition spread :: "obj \<Rightarrow> obj \<Rightarrow> obj" where
  "spread a b = foldr (\<lambda>(k, v). AList.update k v) b a"

definition omit :: "string list \<Rightarrow> obj \<Rightarrow> obj" where
  "omit ks ob = filter (\<lambda>(k, v). k \<notin> set ks) ob"

text \<open>Spreading \<^verbatim>\<open>undefined\<close> adds nothing; the prop is typed as an object otherwise.\<close>

definition spreadable :: "jsval option \<Rightarrow> obj" where
  "spreadable v = (case v of Some (JObj ob) \<Rightarrow> ob | _ \<Rightarrow> [])"

datatype element = TextField (props_of: obj)

definition FormInput :: "classNames \<Rightarrow> obj \<Rightarrow> element" where
  "FormInput classes props =
     (let readOnly = (case map_of props ''readOnly'' of
                        None \<Rightarrow> JBool False
                      | Some JUndefined \<Rightarrow> JBool False
                      | Some v \<Rightarrow> v);
          InputProps = map_of props ''InputProps'';
          rest = omit [''className'', ''inputIndex'', ''readOnly'', ''InputProps''] props
      in TextField
           (spread rest
              [(''className'', JStr (textField_class classes)),
               (''margin'', JStr ''dense''),
               (''spellCheck'', JBool False),
               (''InputProps'',
                  JObj (spread [(''classes'', JObj [(''root'', JStr (input_class classes))]),
                                (''readOnly'', readOnly)]
                               (spreadable InputProps))),
               (''InputLabelProps'',
                  JObj [(''classes'', JObj [(''root'', JStr (label_class classes))])]),
               (''FormHelperTextProps'',
                  JObj [(''classes'', JObj [(''root'', JStr (helperLabel_class classes))])])]))"

section \<open>What the patterns accept\<close>

text \<open>
  The language of a regular expression, to state what \<open>test\<close> decides: the matcher
  above works by derivatives, the language is the usual one.
\<close>

definition conc :: "string set \<Rightarrow> string set \<Rightarrow> string set" where
  "conc A B = {u @ v | u v. u \<in> A \<and> v \<in> B}"

inductive_set star :: "string set \<Rightarrow> string set" for A :: "string set" where
  star_empty: "[] \<in> star A"
| star_more: "u \<in> A \<Longrightarrow> v \<in> star A \<Longrightarrow> u @ v \<in> star A"

fun lang :: "regex \<Rightarrow> string set" where
  "lang Zero = {}"
| "lang One = {[]}"
| "lang (Cls rs) = {[c] | c. inClass rs c}"
| "lang (Alt r s) = lang r \<union> lang s"
| "lang (Seq r s) = conc (lang r) (lang s)"
| "lang (Star r) = star (lang r)"
| "lang (Opt r) = insert [] (lang r)"
| "lang (Plus r) = conc (lang r) (star (lang r))"

lemma nullable_lang: "nullable r \<longleftrightarrow> [] \<in> lang r"
  by (induction r) (auto simp add: conc_def intro: star_empty)

lemma conc_Cons:
  "c # w \<in> conc A B \<longleftrightarrow>
     ([] \<in> A \<and> c # w \<in> B) \<or> (\<exists>u v. w = u @ v \<and> c # u \<in> A \<and> v \<in> B)"
  by (auto simp add: conc_def Cons_eq_append_conv)

lemma star_Cons_split:
  assumes "x \<in> star A" "x = c # w"
  shows "\<exists>u v. w = u @ v \<and> c # u \<in> A \<and> v \<in> star A"
  using assms
proof (induction arbitrary: w rule: star.induct)
  case star_empty
  then show ?case by simp
next
  case (star_more u v)
  show ?case
  proof (cases u)
    case Nil
    with star_more show ?thesis by simp
  next
    case (Cons d u')
    with star_more.prems star_more.hyps show ?thesis by auto
  qed
qed

lemma star_Cons:
  "c # w \<in> star A \<longleftrightarrow> (\<exists>u v. w = u @ v \<and> c # u \<in> A \<and> v \<in> star A)"
proof
  assume "c # w \<in> star A"
  then show "\<exists>u v. w = u @ v \<and> c # u \<in> A \<and> v \<in> star A"
    by (rule star_Cons_split) simp
next
  assume "\<exists>u v. w = u @ v \<and> c # u \<in> A \<and> v \<in> star A"
  then obtain u v where "w = u @ v" "c # u \<in> A" "v \<in> star A" by blast
  then show "c # w \<in> star A"
    using star_more [of "c # u" A v] by simp
qed

lemma deriv_lang: "w \<in> lang (deriv c r) \<longleftrightarrow> c # w \<in> lang r"
proof (induction r arbitrary: w)
  case (Seq r s)
  then show ?case
    by (auto simp add: conc_Cons nullable_lang) (auto simp add: conc_def)
next
  case (Star r)
  then show ?case
    by (auto simp add: star_Cons) (auto simp add: conc_def)
next
  case (Plus r)
  then show ?case
    by (auto simp add: conc_Cons star_Cons) (auto simp add: conc_def)
qed auto

lemma test_lang: "test r w \<longleftrightarrow> w \<in> lang r"
  by (induction w arbitrary: r) (simp_all add: nullable_lang deriv_lang)

lemma star_class: "w \<in> star {[c] | c. P c} \<longleftrightarrow> list_all P w"
proof
  assume "w \<in> star {[c] | c. P c}"
  then show "list_all P w"
    by (induction rule: star.induct) auto
next
  assume "list_all P w"
  then show "w \<in> star {[c] | c. P c}"
  proof (induction w)
    case Nil
    show ?case by (rule star_empty)
  next
    case (Cons c w)
    then have "[c] \<in> {[c] | c. P c}" "w \<in> star {[c] | c. P c}" by auto
    then have "[c] @ w \<in> star {[c] | c. P c}" by (rule star_more)
    then show ?case by simp
  qed
qed

lemma conc_unit: "conc {[]} B = B" "conc {} B = {}"
  by (auto simp add: conc_def)

lemma conc_class_right:
  "w \<in> conc A {[c] | c. P c} \<longleftrightarrow> (\<exists>u d. w = u @ [d] \<and> u \<in> A \<and> P d)"
  by (auto simp add: conc_def)

lemma class_incl:
  "inClass lower c \<Longrightarrow> inClass lower_digit c"
  "inClass lower_digit c \<Longrightarrow> inClass lower_digit_dash c"
  by (auto simp add: lower_def lower_digit_def lower_digit_dash_def inClass_def)

text \<open>\<^verbatim>\<open>/^[0-9]+$/\<close> accepts the non-empty strings of digits.\<close>

lemma test_int_pattern_iff:
  "test int_pattern v \<longleftrightarrow> v \<noteq> [] \<and> list_all (inClass digit) v"
proof (cases v)
  case Nil
  then show ?thesis by (simp add: int_pattern_def)
next
  case (Cons c w)
  have "test int_pattern (c # w) \<longleftrightarrow> w \<in> lang (deriv c int_pattern)"
    by (simp add: test_lang deriv_lang)
  also have "\<dots> \<longleftrightarrow> inClass digit c \<and> list_all (inClass digit) w"
    by (simp add: int_pattern_def conc_unit star_class)
  finally show ?thesis using Cons by simp
qed

text \<open>
  \<^verbatim>\<open>/^[a-z]([a-z0-9-]*[a-z0-9])?$/\<close> accepts the non-empty strings over lower-case
  letters, digits and the dash that start with a letter and end with a letter or digit.
\<close>

lemma test_k8s_name_pattern_iff:
  "test k8s_name_pattern v \<longleftrightarrow>
     v \<noteq> [] \<and> inClass lower (hd v) \<and> list_all (inClass lower_digit_dash) v
     \<and> inClass lower_digit (last v)"
proof (cases v)
  case Nil
  then show ?thesis by (simp add: k8s_name_pattern_def)
next
  case (Cons c w)
  have "test k8s_name_pattern (c # w) \<longleftrightarrow> w \<in> lang (deriv c k8s_name_pattern)"
    by (simp add: test_lang deriv_lang)
  also have "\<dots> \<longleftrightarrow>
          inClass lower c \<and>
          (w = [] \<or> (\<exists>u d. w = u @ [d] \<and> list_all (inClass lower_digit_dash) u
                          \<and> inClass lower_digit d))"
    by (simp add: k8s_name_pattern_def conc_unit conc_class_right star_class)
  also have "\<dots> \<longleftrightarrow> inClass lower c \<and> list_all (inClass lower_digit_dash) (c # w)
                  \<and> inClass lower_digit (last (c # w))"
  proof (cases w rule: rev_cases)
    case Nil
    then show ?thesis by (auto dest: class_incl)
  next
    case (snoc u d)
    then show ?thesis by (auto dest: class_incl)
  qed
  finally show ?thesis using Cons by simp
qed

section \<open>Properties of the dialogs\<close>

lemmas pat_defs = k8s_name_pattern_def int_pattern_def lower_def lower_digit_def
  lower_digit_dash_def digit_def inClass_def inRange_def

lemmas form_defs = click_def handleSubmit_def validateField_def patternError_def
  fieldValue_def getValues_def watch_def fieldNamed_def

lemmas dialog_defs = KFServingDialog_def KFServingPipelineDialog_def
  KFServingDialog_embedded_def KFServingDialog_onSubmit_def KFServingDialog_onCancel_def
  KFServingPipelineDialog_onSubmit_def KFServingDialog_embedded_onSubmit_def
  KFServingDialog_embedded_handleClose_def

lemmas effect_defs = KFServingDialog_useEffect_def KFServingPipelineDialog_useEffect_def
  KFServingDialog_embedded_useEffect_def

subsection \<open>Validation of one field\<close>

lemma validate_required:
  "validateField [(''required'', Message m)] v = (if v = [] then Some m else None)"
  by (simp add: validateField_def patternError_def)

lemma validate_required_pattern:
  "validateField [(''required'', Message m), (''pattern'', ValueMessage r pm)] v =
     (if v = [] then Some m else if test r v then None else Some pm)"
  by (simp add: validateField_def patternError_def)

text \<open>Every input of every dialog carries one of three rule objects.\<close>

lemma content_cases:
  assumes "f \<in> set (content (render d opn vals))"
  shows "rules f = [(''required'', Message ''Required field'')]
            \<and> name f \<noteq> ''name'' \<and> name f \<noteq> ''port''
       \<or> rules f = [(''required'', Message ''Required field''),
                     (''pattern'', ValueMessage k8s_name_pattern
                                     ''Must be a valid K8s resource name'')]
          \<and> name f = ''name''
       \<or> rules f = [(''required'', Message ''Required field''),
                     (''pattern'', ValueMessage int_pattern ''Must be an int'')]
          \<and> name f = ''port''"
  using assms by (cases d) (auto simp add: dialog_defs Let_def split: if_splits)




text \<open>
  C3, as the code has it. A failing field yields a message and nothing else: each input
  of each dialog yields 'Required field' exactly when it is empty, and never anything
  but one of the three messages of the source; the name input yields 'Must be a valid
  K8s resource name' exactly when its value is not empty and does not match the name
  pattern; the port input yields 'Must be an int' exactly when its value is not empty
  and does not match the digits pattern. (On the empty value, which matches neither
  pattern, the message is 'Required field'.)
\<close>

theorem field_messages:
  assumes "f \<in> set (content (render d opn vals))"
  shows "(validateField (rules f) v = Some ''Required field'' \<longleftrightarrow> v = [])
       \<and> validateField (rules f) v \<in>
           {None, Some ''Required field'', Some ''Must be a valid K8s resource name'',
            Some ''Must be an int''}
       \<and> (name f = ''name'' \<longrightarrow>
            (validateField (rules f) v = Some ''Must be a valid K8s resource name''
             \<longleftrightarrow> v \<noteq> [] \<and> \<not> test k8s_name_pattern v))
       \<and> (name f = ''port'' \<longrightarrow>
            (validateField (rules f) v = Some ''Must be an int''
             \<longleftrightarrow> v \<noteq> [] \<and> \<not> test int_pattern v))"
  using content_cases [OF assms]
  by (auto simp add: validate_required validate_required_pattern split: if_splits)

theorem field_messages_witness:
  "hd (content (render Serve True Map.empty)) \<in> set (content (render Serve True Map.empty))
   \<and> name (hd (content (render Serve True Map.empty))) = ''name''
   \<and> validateField (rules (hd (content (render Serve True Map.empty)))) ''My_Model'' =
       Some ''Must be a valid K8s resource name''
   \<and> validateField (rules (hd (content (render Serve True Map.empty)))) [] =
       Some ''Required field''"
proof -
  have m: "hd (content (render Serve True Map.empty))
             \<in> set (content (render Serve True Map.empty))"
    by (simp add: dialog_defs Let_def)
  have n: "name (hd (content (render Serve True Map.empty))) = ''name''"
    by (simp add: dialog_defs Let_def)
  have t: "\<not> test k8s_name_pattern ''My_Model''"
    by (simp add: pat_defs)
  from field_messages [OF m, of "''My_Model''"] field_messages [OF m, of "[]"] m n t
  show ?thesis by simp
qed

text \<open>
  The empty name does not match the name pattern, and the name input does not yield the
  pattern's message on it.
\<close>

theorem empty_name_not_pattern_message:
  "\<not> test k8s_name_pattern []
   \<and> validateField (rules (hd (content (render Serve True Map.empty)))) [] =
       Some ''Required field''
   \<and> validateField (rules (hd (content (render Serve True Map.empty)))) [] \<noteq>
       Some ''Must be a valid K8s resource name''"
  by (simp add: dialog_defs Let_def validate_required_pattern pat_defs)








subsection \<open>Cancelling and submitting\<close>

text \<open>
  C8. In the predictor-based KFServingDialog, a click on Cancel calls
  \<^verbatim>\<open>toggleDialog\<close> exactly once and never calls \<^verbatim>\<open>runInferenceService\<close>, whatever
  the form holds, valid or not: the entered data is discarded.
\<close>

theorem cancel_discards:
  "\<exists>es. click (KFServingDialog True vals) ''Cancel'' vals = Some es
        \<and> es = [ToggleDialog]
        \<and> count_list es ToggleDialog = 1
        \<and> (\<forall>data. RunInferenceService data \<notin> set es)"
  by (simp add: form_defs dialog_defs Let_def)

text \<open>
  C9. KFServingPipelineDialog has the single button Ok (no Cancel), which runs
  \<^verbatim>\<open>handleSubmit(onSubmit)\<close>. A click on it calls \<^verbatim>\<open>setKFServingMetadata\<close> exactly
  when the fields \<^verbatim>\<open>model\<close> and \<^verbatim>\<open>predictor\<close> are both non-empty, with
  \<^verbatim>\<open>toggleDialog\<close> called first; it calls nothing otherwise.
\<close>

theorem pipeline_ok_only:
  "actions (KFServingPipelineDialog opn vals) =
     [(''Ok'', HandleSubmit KFServingPipelineDialog_onSubmit)]
   \<and> KFServingPipelineDialog_onSubmit data = [ToggleDialog, SetKFServingMetadata data]
   \<and> click (KFServingPipelineDialog True vals) ''Cancel'' vals = None
   \<and> click (KFServingPipelineDialog True vals) ''Ok'' vals =
       Some (if valueOr vals ''model'' [] \<noteq> [] \<and> valueOr vals ''predictor'' [] \<noteq> []
             then [ToggleDialog,
                   SetKFServingMetadata [(''model'', valueOr vals ''model'' []),
                                         (''predictor'', valueOr vals ''predictor'' [])]]
             else [])"
  by (simp add: form_defs dialog_defs Let_def)

text \<open>
  C1, as the code has it. When every rendered field is valid, a click on the submit
  button of widgets/KFServingDialog calls \<^verbatim>\<open>toggleDialog\<close> and hands the record to
  \<^verbatim>\<open>runInferenceService\<close>; in KFServingPipelineDialog it hands the record to
  \<^verbatim>\<open>setKFServingMetadata\<close>; in the KFServingDialog of components/FormInput.tsx it
  calls nothing. The record is flat (keys with string values), with the keys
  name, modelPath, predictor (and image, port, endpoint for the custom predictor) in the
  first dialog, model and predictor in the second; the third collects name, image, port,
  endpoint and path.
\<close>

theorem submission_delivery:
  "validationPass (content (render d True vals)) vals = [] \<Longrightarrow>
   click (render d True vals) (case d of Pipeline \<Rightarrow> ''Ok'' | _ \<Rightarrow> ''Run'') vals =
     Some (case d of
             Serve \<Rightarrow> [ToggleDialog,
                        RunInferenceService (getValues (content (render d True vals)) vals)]
           | Pipeline \<Rightarrow> [ToggleDialog,
                           SetKFServingMetadata (getValues (content (render d True vals)) vals)]
           | Embedded \<Rightarrow> [])
   \<and> map fst (getValues (content (render d True vals)) vals) =
       (case d of
          Serve \<Rightarrow> [''name'', ''modelPath'', ''predictor''] @
                    (if watch vals ''predictor'' = Some ''custom''
                     then [''image'', ''port'', ''endpoint''] else [])
        | Pipeline \<Rightarrow> [''model'', ''predictor'']
        | Embedded \<Rightarrow> [''name'', ''image'', ''port'', ''endpoint'', ''path''])"
  by (cases d)
     (simp_all add: click_def handleSubmit_def getValues_def watch_def dialog_defs Let_def)

theorem submission_delivery_witness:
  "validationPass (content (render Serve True
      [''name'' \<mapsto> ''mnist'', ''modelPath'' \<mapsto> ''model.pkl'', ''predictor'' \<mapsto> ''sklearn'']))
      [''name'' \<mapsto> ''mnist'', ''modelPath'' \<mapsto> ''model.pkl'', ''predictor'' \<mapsto> ''sklearn''] = []
   \<and> click (render Serve True
      [''name'' \<mapsto> ''mnist'', ''modelPath'' \<mapsto> ''model.pkl'', ''predictor'' \<mapsto> ''sklearn''])
      ''Run''
      [''name'' \<mapsto> ''mnist'', ''modelPath'' \<mapsto> ''model.pkl'', ''predictor'' \<mapsto> ''sklearn'']
     = Some [ToggleDialog, RunInferenceService
          [(''name'', ''mnist''), (''modelPath'', ''model.pkl''), (''predictor'', ''sklearn'')]]"
proof -
  let ?vs = "[''name'' \<mapsto> ''mnist'', ''modelPath'' \<mapsto> ''model.pkl'',
              ''predictor'' \<mapsto> ''sklearn'']"
  have e: "validationPass (content (render Serve True ?vs)) ?vs = []"
    by (simp add: form_defs dialog_defs pat_defs valueOr_def)
  from submission_delivery [OF e] e show ?thesis
    by (simp add: getValues_def fieldValue_def valueOr_def dialog_defs watch_def)
qed

text \<open>
  A valid form in the KFServingDialog of components/FormInput.tsx: the click on Run
  passes validation and no callback receives the record.
\<close>

theorem embedded_delivers_nothing:
  "validationPass (content (render Embedded True
      [''name'' \<mapsto> ''mnist'', ''image'' \<mapsto> ''img:1'', ''endpoint'' \<mapsto> ''predict'',
       ''path'' \<mapsto> ''model.pkl'']))
      [''name'' \<mapsto> ''mnist'', ''image'' \<mapsto> ''img:1'', ''endpoint'' \<mapsto> ''predict'',
       ''path'' \<mapsto> ''model.pkl''] = []
   \<and> click (render Embedded True
      [''name'' \<mapsto> ''mnist'', ''image'' \<mapsto> ''img:1'', ''endpoint'' \<mapsto> ''predict'',
       ''path'' \<mapsto> ''model.pkl''])
      ''Run''
      [''name'' \<mapsto> ''mnist'', ''image'' \<mapsto> ''img:1'', ''endpoint'' \<mapsto> ''predict'',
       ''path'' \<mapsto> ''model.pkl'']
     = Some []"
  by (simp add: form_defs dialog_defs pat_defs valueOr_def)

subsection \<open>The inputs of the custom predictor\<close>

text \<open>
  C2. In the predictor-based KFServingDialog the inputs Docker Image, Endpoint Port and
  Service Endpoint are rendered, and their rules (each with 'Required field') registered,
  if and only if the watched \<^verbatim>\<open>predictor\<close> value is 'custom'. With any other
  predictor value a submission needs only \<^verbatim>\<open>name\<close>, \<^verbatim>\<open>modelPath\<close> and
  \<^verbatim>\<open>predictor\<close>, and the record delivered holds exactly these three.
\<close>

theorem custom_fields:
  "map_option rules (fieldNamed (KFServingDialog opn vals) ''image'') =
     (if watch vals ''predictor'' = Some ''custom''
      then Some [(''required'', Message ''Required field'')] else None)
   \<and> map_option rules (fieldNamed (KFServingDialog opn vals) ''port'') =
     (if watch vals ''predictor'' = Some ''custom''
      then Some [(''required'', Message ''Required field''),
                 (''pattern'', ValueMessage int_pattern ''Must be an int'')] else None)
   \<and> map_option rules (fieldNamed (KFServingDialog opn vals) ''endpoint'') =
     (if watch vals ''predictor'' = Some ''custom''
      then Some [(''required'', Message ''Required field'')] else None)
   \<and> map label (content (KFServingDialog opn vals)) =
       [''InferenceService Name'', ''Model Path'', ''Predictor Type''] @
       (if watch vals ''predictor'' = Some ''custom''
        then [''Docker Image'', ''Endpoint Port'', ''Service Endpoint''] else [])
   \<and> map name (content (KFServingDialog opn vals)) =
       KFServingFormData_required @
       (if watch vals ''predictor'' = Some ''custom'' then KFServingFormData_optional else [])
   \<and> (watch vals ''predictor'' \<noteq> Some ''custom'' \<longrightarrow>
       click (KFServingDialog True vals) ''Run'' vals =
         Some (if valueOr vals ''name'' [] \<noteq> [] \<and> test k8s_name_pattern (valueOr vals ''name'' [])
                  \<and> valueOr vals ''modelPath'' [] \<noteq> [] \<and> valueOr vals ''predictor'' [] \<noteq> []
               then [ToggleDialog,
                     RunInferenceService [(''name'', valueOr vals ''name'' []),
                                          (''modelPath'', valueOr vals ''modelPath'' []),
                                          (''predictor'', valueOr vals ''predictor'' [])]]
               else []))"
  by (simp add: form_defs dialog_defs Let_def KFServingFormData_required_def
        KFServingFormData_optional_def)

theorem custom_fields_witness:
  "watch [''name'' \<mapsto> ''mnist'', ''modelPath'' \<mapsto> ''model.pkl'', ''predictor'' \<mapsto> ''sklearn'']
       ''predictor'' \<noteq> Some ''custom''
   \<and> fieldNamed (KFServingDialog True
        [''name'' \<mapsto> ''mnist'', ''modelPath'' \<mapsto> ''model.pkl'', ''predictor'' \<mapsto> ''sklearn''])
        ''image'' = None
   \<and> click (KFServingDialog True
        [''name'' \<mapsto> ''mnist'', ''modelPath'' \<mapsto> ''model.pkl'', ''predictor'' \<mapsto> ''sklearn''])
        ''Run'' [''name'' \<mapsto> ''mnist'', ''modelPath'' \<mapsto> ''model.pkl'', ''predictor'' \<mapsto> ''sklearn'']
      = Some [ToggleDialog,
              RunInferenceService [(''name'', ''mnist''), (''modelPath'', ''model.pkl''),
                                   (''predictor'', ''sklearn'')]]"
  using custom_fields [of True
      "[''name'' \<mapsto> ''mnist'', ''modelPath'' \<mapsto> ''model.pkl'', ''predictor'' \<mapsto> ''sklearn'']"]
  by (simp add: watch_def valueOr_def pat_defs)

subsection \<open>The predictor select\<close>

text \<open>
  C10. \<^verbatim>\<open>PREDICTOR_VALUES\<close> has exactly 7 entries, with the pairwise distinct values
  tensorflow, pytorch, onnx, triton, sklearn, xgboost, custom; both predictor selects
  take it. The default selection is the empty string, which is not a value of the list
  and fails the 'Required field' rule: as long as no predictor is chosen, the submit
  button of either dialog calls nothing.
\<close>

theorem predictor_values:
  "length PREDICTOR_VALUES = 7
   \<and> map snd PREDICTOR_VALUES =
       [''tensorflow'', ''pytorch'', ''onnx'', ''triton'', ''sklearn'', ''xgboost'', ''custom'']
   \<and> distinct (map snd PREDICTOR_VALUES)
   \<and> map_option widget (fieldNamed (KFServingDialog opn vals) ''predictor'') =
       Some (Select PREDICTOR_VALUES)
   \<and> map_option widget (fieldNamed (KFServingPipelineDialog opn vals) ''predictor'') =
       Some (Select PREDICTOR_VALUES)
   \<and> map_option defaultValue (fieldNamed (KFServingDialog opn vals) ''predictor'') = Some []
   \<and> map_option defaultValue (fieldNamed (KFServingPipelineDialog opn vals) ''predictor'') =
       Some []
   \<and> [] \<notin> set (map snd PREDICTOR_VALUES)
   \<and> map_option (\<lambda>f. validateField (rules f) (defaultValue f))
         (fieldNamed (KFServingDialog opn vals) ''predictor'') = Some (Some ''Required field'')
   \<and> map_option (\<lambda>f. validateField (rules f) (defaultValue f))
         (fieldNamed (KFServingPipelineDialog opn vals) ''predictor'') =
       Some (Some ''Required field'')
   \<and> (valueOr vals ''predictor'' [] = [] \<longrightarrow>
         click (KFServingDialog True vals) ''Run'' vals = Some []
       \<and> click (KFServingPipelineDialog True vals) ''Ok'' vals = Some [])"
  by (auto simp add: form_defs dialog_defs Let_def PREDICTOR_VALUES_def valueOr_def
           split: option.splits)

theorem predictor_values_witness:
  "valueOr [''name'' \<mapsto> ''mnist'', ''modelPath'' \<mapsto> ''model.pkl'', ''model'' \<mapsto> ''clf'']
      ''predictor'' [] = []
   \<and> click (KFServingDialog True
        [''name'' \<mapsto> ''mnist'', ''modelPath'' \<mapsto> ''model.pkl'', ''model'' \<mapsto> ''clf''])
        ''Run'' [''name'' \<mapsto> ''mnist'', ''modelPath'' \<mapsto> ''model.pkl'', ''model'' \<mapsto> ''clf'']
      = Some []
   \<and> click (KFServingPipelineDialog True
        [''name'' \<mapsto> ''mnist'', ''modelPath'' \<mapsto> ''model.pkl'', ''model'' \<mapsto> ''clf''])
        ''Ok'' [''name'' \<mapsto> ''mnist'', ''modelPath'' \<mapsto> ''model.pkl'', ''model'' \<mapsto> ''clf'']
      = Some []"
  using predictor_values [of True
      "[''name'' \<mapsto> ''mnist'', ''modelPath'' \<mapsto> ''model.pkl'', ''model'' \<mapsto> ''clf'']"]
  by (simp add: valueOr_def)

subsection \<open>The timer started on open\<close>

lemma openEffect_eq:
  "openEffect d opn = (if opn then [SetTimeout [TriggerValidation] 500] else [])"
  by (cases d) (simp_all add: effect_defs)

lemma length_useEffect: "length (useEffect cb prev os) = length os"
  by (induction os arbitrary: prev) simp_all

lemma useEffect_nth:
  "i < length os \<Longrightarrow>
   useEffect cb prev os ! i =
     (if (if i = 0 then prev = Some (os ! 0) else os ! (i - 1) = os ! i) then []
      else cb (os ! i))"
proof (induction os arbitrary: prev i)
  case Nil
  then show ?case by simp
next
  case (Cons d ds)
  show ?case
  proof (cases i)
    case 0
    then show ?thesis by simp
  next
    case (Suc j)
    with Cons.prems have "j < length ds" by simp
    from Cons.IH [OF this, of "Some d"] Suc show ?thesis
      by (cases j) simp_all
  qed
qed

lemma click_no_timer:
  assumes "click (render d opn vals) caption vals' = Some es"
  shows "(\<forall>cb ms. SetTimeout cb ms \<notin> set es) \<and> TriggerValidation \<notin> set es"
  using assms
  by (cases d)
     (auto simp add: form_defs dialog_defs Let_def
           split: if_splits option.splits handler.splits)

text \<open>
  C5. In every dialog the effect on \<^verbatim>\<open>props.open\<close> starts one timer of 500 ms whose
  expiry calls \<^verbatim>\<open>triggerValidation\<close> once when \<^verbatim>\<open>open\<close> is true, and nothing when it
  is false. Over successive renders, the timer is started exactly at the renders where
  \<^verbatim>\<open>open\<close> is true and was not true at the render before (or there is no render
  before); \<^verbatim>\<open>triggerValidation\<close> is never called at once. No button handler and no
  render body starts a timer or calls \<^verbatim>\<open>triggerValidation\<close>: this timer is the only
  asynchronous behaviour.
\<close>

theorem open_timer:
  "openEffect d opn = (if opn then [SetTimeout [TriggerValidation] 500] else [])
   \<and> (i < length os \<longrightarrow>
        useEffect (openEffect d) None os ! i =
          (if os ! i \<and> (i = 0 \<or> \<not> os ! (i - 1))
           then [SetTimeout [TriggerValidation] 500] else []))
   \<and> (click (render d opn' vals) caption vals' = Some es \<longrightarrow>
        (\<forall>cb ms. SetTimeout cb ms \<notin> set es) \<and> TriggerValidation \<notin> set es)
   \<and> (\<forall>cb ms. SetTimeout cb ms \<notin> set (KFServingDialog_log vals))"
proof -
  have "useEffect (openEffect d) None os ! i =
          (if os ! i \<and> (i = 0 \<or> \<not> os ! (i - 1))
           then [SetTimeout [TriggerValidation] 500] else [])" if "i < length os"
    using useEffect_nth [OF that, of "openEffect d" None]
    by (auto simp add: openEffect_eq)
  then show ?thesis
    using click_no_timer [of d opn' vals caption vals' es]
    by (simp add: openEffect_eq KFServingDialog_log_def)
qed

theorem open_timer_witness:
  "(1::nat) < length [False, True, True, False] \<and>
   useEffect (openEffect Serve) None [False, True, True, False] =
     [[], [SetTimeout [TriggerValidation] 500], [], []]
   \<and> click (render Serve True Map.empty) ''Cancel'' Map.empty = Some [ToggleDialog]
   \<and> SetTimeout [TriggerValidation] 500 \<notin> set [ToggleDialog]"
  using open_timer [of Serve True 1 "[False, True, True, False]" True Map.empty
      "''Cancel''" Map.empty "[ToggleDialog]"]
  by (simp add: effect_defs form_defs dialog_defs Let_def)

subsection \<open>FormInput\<close>

lemma map_of_spread:
  "map_of (spread a b) k = (case map_of b k of Some v \<Rightarrow> Some v | None \<Rightarrow> map_of a k)"
  by (induction b) (simp_all add: spread_def update_conv case_prod_beta)

lemma map_of_omit: "map_of (omit ks ob) k = (if k \<in> set ks then None else map_of ob k)"
  by (induction ob) (auto simp add: omit_def)

text \<open>
  C7, as the code has it. FormInput is a function of its props (and of the class names
  of the styling hook) and returns a single TextField. The TextField receives every prop
  unchanged except these: \<^verbatim>\<open>className\<close> is the textField class, \<^verbatim>\<open>margin\<close> is
  'dense', \<^verbatim>\<open>spellCheck\<close> is false, \<^verbatim>\<open>inputIndex\<close> and \<^verbatim>\<open>readOnly\<close> are
  dropped, \<^verbatim>\<open>InputLabelProps\<close> and \<^verbatim>\<open>FormHelperTextProps\<close> are replaced by the
  objects holding the label and helperLabel classes, and \<^verbatim>\<open>InputProps\<close> is the
  caller's \<^verbatim>\<open>InputProps\<close> laid over the input class and \<^verbatim>\<open>readOnly\<close> (false when
  absent or undefined).
\<close>

theorem FormInput_props:
  "(k \<notin> set [''className'', ''inputIndex'', ''readOnly'', ''InputProps'', ''margin'',
              ''spellCheck'', ''InputLabelProps'', ''FormHelperTextProps''] \<longrightarrow>
      map_of (props_of (FormInput classes props)) k = map_of props k)
   \<and> map_of (props_of (FormInput classes props)) ''className'' =
       Some (JStr (textField_class classes))
   \<and> map_of (props_of (FormInput classes props)) ''margin'' = Some (JStr ''dense'')
   \<and> map_of (props_of (FormInput classes props)) ''spellCheck'' = Some (JBool False)
   \<and> map_of (props_of (FormInput classes props)) ''inputIndex'' = None
   \<and> map_of (props_of (FormInput classes props)) ''readOnly'' = None
   \<and> map_of (props_of (FormInput classes props)) ''InputLabelProps'' =
       Some (JObj [(''classes'', JObj [(''root'', JStr (label_class classes))])])
   \<and> map_of (props_of (FormInput classes props)) ''FormHelperTextProps'' =
       Some (JObj [(''classes'', JObj [(''root'', JStr (helperLabel_class classes))])])
   \<and> (\<exists>ip. map_of (props_of (FormInput classes props)) ''InputProps'' = Some (JObj ip)
         \<and> (\<forall>j. map_of ip j =
               (case map_of (spreadable (map_of props ''InputProps'')) j of
                  Some v \<Rightarrow> Some v
                | None \<Rightarrow>
                    if j = ''classes'' then Some (JObj [(''root'', JStr (input_class classes))])
                    else if j = ''readOnly''
                      then Some (case map_of props ''readOnly'' of
                                   None \<Rightarrow> JBool False
                                 | Some JUndefined \<Rightarrow> JBool False
                                 | Some v \<Rightarrow> v)
                    else None)))"
  by (simp add: FormInput_def Let_def map_of_spread map_of_omit split: option.split)

theorem FormInput_props_witness:
  "''variant'' \<notin> set [''className'', ''inputIndex'', ''readOnly'', ''InputProps'', ''margin'',
              ''spellCheck'', ''InputLabelProps'', ''FormHelperTextProps'']
   \<and> map_of (props_of (FormInput
        \<lparr> label_class = ''l'', input_class = ''i'', textField_class = ''t'',
          helperLabel_class = ''h'' \<rparr>
        [(''variant'', JStr ''outlined''), (''className'', JStr ''mine''),
         (''inputIndex'', JNum 3)]))
        ''variant'' = Some (JStr ''outlined'')"
  using FormInput_props [of "''variant''"
        "\<lparr> label_class = ''l'', input_class = ''i'', textField_class = ''t'',
           helperLabel_class = ''h'' \<rparr>"
        "[(''variant'', JStr ''outlined''), (''className'', JStr ''mine''),
          (''inputIndex'', JNum 3)]"]
  by simp

text \<open>A caller's \<^verbatim>\<open>InputLabelProps\<close> does not reach the TextField.\<close>

theorem FormInput_replaces_InputLabelProps:
  "map_of (props_of (FormInput
        \<lparr> label_class = ''l'', input_class = ''i'', textField_class = ''t'',
          helperLabel_class = ''h'' \<rparr>
        [(''name'', JStr ''port''), (''InputLabelProps'', JObj [(''shrink'', JBool True)])]))
      ''InputLabelProps'' = Some (JObj [(''classes'', JObj [(''root'', JStr ''l'')])])
   \<and> map_of [(''name'', JStr ''port''), (''InputLabelProps'', JObj [(''shrink'', JBool True)])]
      ''InputLabelProps'' = Some (JObj [(''shrink'', JBool True)])
   \<and> map_of (props_of (FormInput
        \<lparr> label_class = ''l'', input_class = ''i'', textField_class = ''t'',
          helperLabel_class = ''h'' \<rparr>
        [(''name'', JStr ''port''), (''InputLabelProps'', JObj [(''shrink'', JBool True)])]))
      ''InputLabelProps'' \<noteq>
     map_of [(''name'', JStr ''port''), (''InputLabelProps'', JObj [(''shrink'', JBool True)])]
      ''InputLabelProps''"
  by (simp add: FormInput_def Let_def spread_def omit_def spreadable_def)

end
